theory Spec2Isabelle
  imports Complex_Main
begin

section \<open>Values and exceptions\<close>

text \<open>
  The module \<^verbatim>\<open>publicAPI/crest_utils.py\<close> validates an EVE Online id against the CREST
  service and keeps the answers in one TinyDB file per endpoint. This theory embeds its
  functions \<^verbatim>\<open>write_cache_entry\<close>, \<^verbatim>\<open>endpoint_to_kwarg\<close>, \<^verbatim>\<open>fetch_crest_endpoint\<close> and
  \<^verbatim>\<open>validate_id\<close>.

  An id (\<^verbatim>\<open>type_id\<close>, \<^verbatim>\<open>index_key\<close>) is an integer or a string. Python's \<^verbatim>\<open>==\<close> on two such
  values is equality of the values, and an integer never equals a string.
\<close>

datatype ident = IntId int | StrId string

text \<open>Structured data as \<^verbatim>\<open>req.json()\<close> returns it and as TinyDB stores it.\<close>

datatype pyval =
    PNone
  | PBool bool
  | PInt int
  | PFloat real
  | PStr string
  | PList "pyval list"
  | PDict "(string \<times> pyval) list"

text \<open>The truth value Python gives an object in \<^verbatim>\<open>if cache_val:\<close>.\<close>

fun truthy :: "pyval \<Rightarrow> bool" where
  "truthy PNone = False"
| "truthy (PBool b) = b"
| "truthy (PInt i) = (i \<noteq> 0)"
| "truthy (PFloat x) = (x \<noteq> 0)"
| "truthy (PStr s) = (s \<noteq> [])"
| "truthy (PList xs) = (xs \<noteq> [])"
| "truthy (PDict kvs) = (kvs \<noteq> [])"

text \<open>
  Every \<^verbatim>\<open>raise\<close> of the module and every exception of its collaborators is a value.
  \<open>IDValidationError\<close> carries its \<^verbatim>\<open>status\<close>, its \<^verbatim>\<open>message\<close> and the exception that was being
  handled when it was raised (Python 3 records it as the context of the new exception).
  \<open>UnboundLocalError\<close> is what Python raises when a local variable is read before any
  assignment to it has run.
\<close>

datatype exn =
    UnsupportedCrestEndpoint string
  | CrestAddressError string
  | IDValidationError int string exn
  | UnboundLocalError string
  | TypeError string
  | AttributeError string
  | NoOptionError string string
  | KeyError string
  | HTTPError int
  | ValueError string
  | OtherError string

text \<open>\<^verbatim>\<open>str(n)\<close> for an id: the decimal digits of an integer, a string as it is.\<close>

fun str_of_nat :: "nat \<Rightarrow> string" where
  "str_of_nat n =
     (if n < 10 then [''0123456789'' ! n]
      else str_of_nat (n div 10) @ [''0123456789'' ! (n mod 10)])"

declare str_of_nat.simps [simp del]

definition str_of_int :: "int \<Rightarrow> string" where
  "str_of_int i = (if i < 0 then ''-'' @ str_of_nat (nat (- i)) else str_of_nat (nat i))"

fun str_of_ident :: "ident \<Rightarrow> string" where
  "str_of_ident (IntId i) = str_of_int i"
| "str_of_ident (StrId s) = s"

section \<open>Endpoint names to keyword arguments\<close>

text \<open>
  \<^verbatim>\<open>endpoint_to_kwarg(endpoint_name, type_id)\<close>: the dictionary with the one keyword argument
  of the endpoint, as the list of its items. The function reads and writes nothing but its
  arguments, so it takes no state and returns none.
\<close>

definition endpoint_to_kwarg :: "string \<Rightarrow> ident \<Rightarrow> exn + (string \<times> ident) list" where
  "endpoint_to_kwarg endpoint_name type_id =
     (if endpoint_name = ''inventory_types'' then Inr [(''type_id'', type_id)]
      else if endpoint_name = ''map_regions'' then Inr [(''region_id'', type_id)]
      else Inl (UnsupportedCrestEndpoint (''No configuration for '' @ endpoint_name)))"

section \<open>The cache store\<close>

text \<open>
  A cache file holds the documents \<^verbatim>\<open>write_cache_entry\<close> writes: dictionaries with the keys
  \<^verbatim>\<open>index_key\<close>, \<^verbatim>\<open>cache_datetime\<close> (a POSIX timestamp, taken here as an exact number) and
  \<^verbatim>\<open>payload\<close>.
\<close>

record document =
  index_key :: ident
  cache_datetime :: real
  payload :: pyval

text \<open>
  TinyDB conditions: \<^verbatim>\<open>Query().index_key == k\<close>, \<^verbatim>\<open>Query().cache_datetime >= t\<close>, and
  \<^verbatim>\<open>p & q\<close> for two conditions, which holds of a document when both do.
\<close>

datatype query = Index_key_eq ident | Cache_datetime_ge real | Both query query

fun matches :: "query \<Rightarrow> document \<Rightarrow> bool" where
  "matches (Index_key_eq k) d = (index_key d = k)"
| "matches (Cache_datetime_ge t) d = (t \<le> cache_datetime d)"
| "matches (Both p q) d = (matches p d \<and> matches q d)"

text \<open>A TinyDB handle stands for the cache file it was opened on.\<close>

datatype handle = Handle string

fun file_of :: "handle \<Rightarrow> string" where
  "file_of (Handle cache_filename) = cache_filename"

text \<open>
  The state the module works on: the documents of every cache file (a file that does not
  exist yet has none), the clock read by \<^verbatim>\<open>datetime.utcnow().timestamp()\<close>, and the addresses
  requested from the remote service so far.
\<close>

record world =
  cache :: "string \<Rightarrow> document list"
  clock :: real
  requests_log :: "string list"

record response =
  status_code :: int
  json_body :: "pyval option"

datatype store_op = Open | Search | Update | Insert

text \<open>
  What lies outside the module is a parameter:
  \<^item> \<open>store_fault\<close>: the exception a TinyDB operation on a cache file raises, if any
    (the file cannot be opened, read or written);
  \<^item> \<open>find_method\<close>: what the attribute \<^verbatim>\<open>find\<close> of a TinyDB handle is, if the handle has
    one: a function of a condition and the documents of the file;
  \<^item> \<open>sde_cache_limit\<close>: the outcome of \<^verbatim>\<open>int(config.get('CACHING', 'sde_cache_limit'))\<close> on
    the configuration given to \<^verbatim>\<open>validate_id\<close>;
  \<^item> \<open>config_get\<close>: \<^verbatim>\<open>config.get(section, option)\<close> on the configuration bound to
    \<^verbatim>\<open>fetch_crest_endpoint\<close>;
  \<^item> \<open>str_format\<close>: \<^verbatim>\<open>template.format(**kwargs)\<close>, which raises \<^verbatim>\<open>KeyError\<close> for a field
    that \<^verbatim>\<open>kwargs\<close> lacks;
  \<^item> \<open>http_get\<close>: \<^verbatim>\<open>requests.get(url, headers={'User-Agent': agent})\<close>, the response or the
    exception of a failed connection.
\<close>

record env =
  store_fault :: "store_op \<Rightarrow> string \<Rightarrow> exn option"
  find_method :: "(query \<Rightarrow> document list \<Rightarrow> exn + pyval) option"
  sde_cache_limit :: "exn + int"
  config_get :: "string \<Rightarrow> string \<Rightarrow> exn + string"
  str_format :: "string \<Rightarrow> (string \<times> ident) list \<Rightarrow> exn + string"
  http_get :: "string \<Rightarrow> string \<Rightarrow> exn + response"

text \<open>\<^verbatim>\<open>setup_cache_file(cache_filename)\<close>: the handle \<^verbatim>\<open>TinyDB(db_filename)\<close>.\<close>

definition setup_cache_file :: "env \<Rightarrow> string \<Rightarrow> exn + handle" where
  "setup_cache_file env cache_filename =
     (case store_fault env Open cache_filename of
        Some e \<Rightarrow> Inl e
      | None \<Rightarrow> Inr (Handle cache_filename))"

text \<open>
  \<^verbatim>\<open>search(cond)\<close> lists the documents that satisfy the condition; \<^verbatim>\<open>update(fields, cond)\<close>
  sets the given fields in every document that satisfies it; \<^verbatim>\<open>insert(doc)\<close> appends a
  document.
\<close>

definition tinydb_search :: "env \<Rightarrow> handle \<Rightarrow> query \<Rightarrow> world \<Rightarrow> exn + document list" where
  "tinydb_search env h cond w =
     (case store_fault env Search (file_of h) of
        Some e \<Rightarrow> Inl e
      | None \<Rightarrow> Inr (filter (matches cond) (cache w (file_of h))))"

definition tinydb_update ::
  "env \<Rightarrow> handle \<Rightarrow> real \<Rightarrow> pyval \<Rightarrow> query \<Rightarrow> world \<Rightarrow> (exn + unit) \<times> world" where
  "tinydb_update env h t p cond w =
     (case store_fault env Update (file_of h) of
        Some e \<Rightarrow> (Inl e, w)
      | None \<Rightarrow>
          (Inr (),
           w\<lparr>cache := (cache w)
               (file_of h :=
                  map (\<lambda>d. if matches cond d then d\<lparr>cache_datetime := t, payload := p\<rparr> else d)
                    (cache w (file_of h)))\<rparr>))"

definition tinydb_insert :: "env \<Rightarrow> handle \<Rightarrow> document \<Rightarrow> world \<Rightarrow> (exn + unit) \<times> world" where
  "tinydb_insert env h doc w =
     (case store_fault env Insert (file_of h) of
        Some e \<Rightarrow> (Inl e, w)
      | None \<Rightarrow> (Inr (), w\<lparr>cache := (cache w)(file_of h := cache w (file_of h) @ [doc])\<rparr>))"

text \<open>
  \<^verbatim>\<open>write_cache_entry(tinydb_handle, index_key, data_payload)\<close>: update the documents with
  this key when \<^verbatim>\<open>search\<close> finds any (a non-empty list is true), insert a new one otherwise.
\<close>

definition write_cache_entry ::
  "env \<Rightarrow> handle \<Rightarrow> ident \<Rightarrow> pyval \<Rightarrow> world \<Rightarrow> (exn + unit) \<times> world" where
  "write_cache_entry env tinydb_handle key data_payload w =
     (case tinydb_search env tinydb_handle (Index_key_eq key) w of
        Inl e \<Rightarrow> (Inl e, w)
      | Inr found \<Rightarrow>
          if found \<noteq> [] then
            tinydb_update env tinydb_handle (clock w) data_payload (Index_key_eq key) w
          else
            tinydb_insert env tinydb_handle
              \<lparr>index_key = key, cache_datetime = clock w, payload = data_payload\<rparr> w)"

section \<open>Fetching from the remote service\<close>

definition CREST_BASE :: string where
  "CREST_BASE = ''https://crest-tq.eveonline.com/''"

text \<open>
  The two handlers of \<^verbatim>\<open>fetch_crest_endpoint\<close>: \<^verbatim>\<open>NoOptionError\<close> from the lookup of the
  address template becomes \<^verbatim>\<open>UnsupportedCrestEndpoint\<close>, \<^verbatim>\<open>KeyError\<close> from \<^verbatim>\<open>format\<close> becomes
  \<^verbatim>\<open>CrestAddressError\<close> (its message is the \<^verbatim>\<open>repr\<close> of the \<^verbatim>\<open>KeyError\<close>, kept here as the key);
  any other exception passes through.
\<close>

fun resources_error :: "string \<Rightarrow> exn \<Rightarrow> exn" where
  "resources_error endpoint_name (NoOptionError section opt) =
     UnsupportedCrestEndpoint (''No '' @ endpoint_name @ '' found in [RESOURCES]'')"
| "resources_error endpoint_name e = e"

fun format_error :: "exn \<Rightarrow> exn" where
  "format_error (KeyError k) = CrestAddressError k"
| "format_error e = e"

text \<open>\<^verbatim>\<open>req.raise_for_status()\<close> raises \<^verbatim>\<open>HTTPError\<close> for a 4xx or 5xx status.\<close>

definition raise_for_status :: "response \<Rightarrow> exn option" where
  "raise_for_status req =
     (if 400 \<le> status_code req \<and> status_code req < 600 then Some (HTTPError (status_code req))
      else None)"

text \<open>
  \<^verbatim>\<open>fetch_crest_endpoint(endpoint_name, crest_base, config, **kwargs)\<close>. The request is logged in
  the state when it is sent; \<^verbatim>\<open>req.json()\<close> raises \<^verbatim>\<open>ValueError\<close> on a body that does not
  parse.
\<close>

definition fetch_crest_endpoint ::
  "env \<Rightarrow> string \<Rightarrow> string \<Rightarrow> (string \<times> ident) list \<Rightarrow> world \<Rightarrow> (exn + pyval) \<times> world" where
  "fetch_crest_endpoint env endpoint_name crest_base kwargs w =
     (case config_get env ''RESOURCES'' endpoint_name of
        Inl e \<Rightarrow> (Inl (resources_error endpoint_name e), w)
      | Inr template \<Rightarrow>
          (case str_format env (crest_base @ template) kwargs of
             Inl e \<Rightarrow> (Inl (format_error e), w)
           | Inr crest_url \<Rightarrow>
               (case config_get env ''GLOBAL'' ''useragent'' of
                  Inl e \<Rightarrow> (Inl e, w)
                | Inr agent \<Rightarrow>
                    (let w' = w\<lparr>requests_log := requests_log w @ [crest_url]\<rparr> in
                     case http_get env crest_url agent of
                       Inl e \<Rightarrow> (Inl e, w')
                     | Inr req \<Rightarrow>
                         (case raise_for_status req of
                            Some e \<Rightarrow> (Inl e, w')
                          | None \<Rightarrow>
                              (case json_body req of
                                 None \<Rightarrow> (Inl (ValueError ''Expected object or value''), w')
                               | Some data \<Rightarrow> (Inr data, w')))))))"

section \<open>Validating an id\<close>

text \<open>
  The cutoff of the cache lookup:
  \<^verbatim>\<open>cache_time = datetime.utcnow().timestamp() - int(config.get('CACHING', 'sde_cache_limit'))\<close>.
\<close>

definition cache_time :: "real \<Rightarrow> int \<Rightarrow> real" where
  "cache_time now limit = now - of_int limit"

text \<open>
  The lookup is written
  \<^verbatim>\<open>db_handle.find(Query().cache_datetime >= cache_time & Query().index_key == type_id)\<close>.

  Left of the \<^verbatim>\<open>&\<close> stands the comparison of the timestamp with the cutoff, right of it the
  comparison of the key. \<open>freshness_condition\<close> and \<open>key_condition\<close> are these two
  comparisons as TinyDB conditions, and \<open>intended_query\<close> is their conjunction, the
  condition the lookup is meant to pass to \<^verbatim>\<open>find\<close>.
\<close>

definition freshness_condition :: "real \<Rightarrow> int \<Rightarrow> query" where
  "freshness_condition now limit = Cache_datetime_ge (cache_time now limit)"

definition key_condition :: "ident \<Rightarrow> query" where
  "key_condition type_id = Index_key_eq type_id"

definition intended_query :: "real \<Rightarrow> int \<Rightarrow> ident \<Rightarrow> query" where
  "intended_query now limit type_id = Both (freshness_condition now limit) (key_condition type_id)"

text \<open>
  Python does not read the argument that way. \<^verbatim>\<open>&\<close> binds tighter than \<^verbatim>\<open>>=\<close> and \<^verbatim>\<open>==\<close>, so the
  argument is the chained comparison
  \<^verbatim>\<open>Query().cache_datetime >= (cache_time & Query().index_key) == type_id\<close>,
  and its middle operand \<^verbatim>\<open>cache_time & Query().index_key\<close> is evaluated before either
  comparison. \<^verbatim>\<open>cache_time\<close> is a float (a timestamp minus an integer). \<^verbatim>\<open>float\<close> has no
  \<^verbatim>\<open>__and__\<close> and a TinyDB query has no \<^verbatim>\<open>__rand__\<close>, so the operand raises \<^verbatim>\<open>TypeError\<close> and
  no condition is built, whatever the cutoff and the id.
\<close>

definition cache_query :: "real \<Rightarrow> ident \<Rightarrow> exn + query" where
  "cache_query cutoff type_id = Inl (TypeError ''unsupported operand type(s) for &'')"

text \<open>
  \<^verbatim>\<open>db_handle.find(...)\<close>: Python looks the attribute up first (\<^verbatim>\<open>AttributeError\<close> when the
  handle has none), evaluates the argument next, and calls the method last.
\<close>

definition tinydb_find :: "env \<Rightarrow> handle \<Rightarrow> exn + query \<Rightarrow> world \<Rightarrow> exn + pyval" where
  "tinydb_find env h arg w =
     (case find_method env of
        None \<Rightarrow> Inl (AttributeError ''find'')
      | Some find_impl \<Rightarrow>
          (case arg of
             Inl e \<Rightarrow> Inl e
           | Inr cond \<Rightarrow> find_impl cond (cache w (file_of h))))"

text \<open>
  The \<^verbatim>\<open>try\<close> block under \<^verbatim>\<open>## Check local cache for value ##\<close>. Its handler logs any
  exception and goes on, so what the block leaves behind is the binding of the local
  variables \<^verbatim>\<open>db_handle\<close> and \<^verbatim>\<open>cache_val\<close>: \<open>None\<close> for a variable whose assignment was
  not reached.
\<close>

definition check_local_cache ::
  "env \<Rightarrow> string \<Rightarrow> ident \<Rightarrow> world \<Rightarrow> handle option \<times> pyval option" where
  "check_local_cache env endpoint_name type_id w =
     (case setup_cache_file env endpoint_name of
        Inl e \<Rightarrow> (None, None)
      | Inr db_handle \<Rightarrow>
          (case sde_cache_limit env of
             Inl e \<Rightarrow> (Some db_handle, None)
           | Inr limit \<Rightarrow>
               (case tinydb_find env db_handle
                       (cache_query (cache_time (clock w) limit) type_id) w of
                  Inl e \<Rightarrow> (Some db_handle, None)
                | Inr cache_val \<Rightarrow> (Some db_handle, Some cache_val))))"

text \<open>
  The block under \<^verbatim>\<open>## Update cache ##\<close>: the call \<^verbatim>\<open>write_cache_entry(db_handle, ...)\<close> in a
  \<^verbatim>\<open>try\<close> whose handler logs and goes on. Reading \<^verbatim>\<open>db_handle\<close> when it is unbound raises
  \<^verbatim>\<open>UnboundLocalError\<close> inside that \<^verbatim>\<open>try\<close>, so nothing is written then.
\<close>

definition update_cache :: "env \<Rightarrow> handle option \<Rightarrow> ident \<Rightarrow> pyval \<Rightarrow> world \<Rightarrow> world" where
  "update_cache env db_handle type_id type_info w =
     (case db_handle of
        None \<Rightarrow> w
      | Some h \<Rightarrow> snd (write_cache_entry env h type_id type_info w))"

definition unable_to_validate :: "string \<Rightarrow> ident \<Rightarrow> string" where
  "unable_to_validate endpoint_name type_id =
     ''Unable to validate '' @ endpoint_name @ '':'' @ str_of_ident type_id"

text \<open>
  The block under \<^verbatim>\<open>## Request info from CREST ##\<close> and the rest of the function: any
  exception of \<^verbatim>\<open>endpoint_to_kwarg\<close> or \<^verbatim>\<open>fetch_crest_endpoint\<close> is replaced by
  \<^verbatim>\<open>IDValidationError(status=404, ...)\<close>; otherwise the cache is updated and the fetched
  data returned.
\<close>

definition request_info ::
  "env \<Rightarrow> string \<Rightarrow> ident \<Rightarrow> handle option \<Rightarrow> world \<Rightarrow> (exn + pyval) \<times> world" where
  "request_info env endpoint_name type_id db_handle w =
     (case endpoint_to_kwarg endpoint_name type_id of
        Inl e \<Rightarrow>
          (Inl (IDValidationError 404 (unable_to_validate endpoint_name type_id) e), w)
      | Inr kwarg_pair \<Rightarrow>
          (case fetch_crest_endpoint env endpoint_name CREST_BASE kwarg_pair w of
             (Inl e, w') \<Rightarrow>
               (Inl (IDValidationError 404 (unable_to_validate endpoint_name type_id) e), w')
           | (Inr type_info, w') \<Rightarrow>
               (Inr type_info, update_cache env db_handle type_id type_info w')))"

text \<open>
  \<^verbatim>\<open>validate_id(endpoint_name, type_id, cache_buster)\<close>. With \<^verbatim>\<open>cache_buster\<close> the first block
  is skipped and both local variables stay unbound. Without it, \<^verbatim>\<open>if cache_val:\<close> reads
  \<^verbatim>\<open>cache_val\<close> outside any \<^verbatim>\<open>try\<close>: unbound, it raises \<^verbatim>\<open>UnboundLocalError\<close> out of the
  function; bound to a true value, that value is returned.
\<close>

definition validate_id ::
  "env \<Rightarrow> string \<Rightarrow> ident \<Rightarrow> bool \<Rightarrow> world \<Rightarrow> (exn + pyval) \<times> world" where
  "validate_id env endpoint_name type_id cache_buster w =
     (if \<not> cache_buster then
        (case check_local_cache env endpoint_name type_id w of
           (db_handle, None) \<Rightarrow> (Inl (UnboundLocalError ''cache_val''), w)
         | (db_handle, Some cache_val) \<Rightarrow>
             if truthy cache_val then (Inr cache_val, w)
             else request_info env endpoint_name type_id db_handle w)
      else request_info env endpoint_name type_id None w)"

section \<open>An example environment\<close>

text \<open>
  Modelled from the spec: the method \<^verbatim>\<open>find\<close> of a cache handle, which the module calls
  and does not define. It returns the entry that satisfies the condition, and "not found"
  (\<^verbatim>\<open>None\<close>) when there is none, never an error.
\<close>

fun py_of_ident :: "ident \<Rightarrow> pyval" where
  "py_of_ident (IntId i) = PInt i"
| "py_of_ident (StrId s) = PStr s"

definition py_of_document :: "document \<Rightarrow> pyval" where
  "py_of_document d =
     PDict [(''cache_datetime'', PFloat (cache_datetime d)),
            (''payload'', payload d),
            (''index_key'', py_of_ident (index_key d))]"

definition spec_find :: "query \<Rightarrow> document list \<Rightarrow> exn + pyval" where
  "spec_find cond docs =
     (case filter (matches cond) docs of
        [] \<Rightarrow> Inr PNone
      | d # ds \<Rightarrow> Inr (py_of_document d))"

text \<open>
  A formatter that replaces each field \<^verbatim>\<open>{name}\<close> of a template by \<^verbatim>\<open>str\<close> of the keyword
  argument of that name. The first argument is the field name read so far, if a field is
  open.
\<close>

fun simple_format :: "string option \<Rightarrow> string \<Rightarrow> (string \<times> ident) list \<Rightarrow> exn + string" where
  "simple_format None [] kwargs = Inr []"
| "simple_format (Some name) [] kwargs = Inl (ValueError ''expected } before end of string'')"
| "simple_format None (c # cs) kwargs =
     (if c = CHR ''{'' then simple_format (Some []) cs kwargs
      else (case simple_format None cs kwargs of
              Inl e \<Rightarrow> Inl e
            | Inr rest \<Rightarrow> Inr (c # rest)))"
| "simple_format (Some name) (c # cs) kwargs =
     (if c = CHR ''}'' then
        (case map_of kwargs name of
           None \<Rightarrow> Inl (KeyError name)
         | Some v \<Rightarrow>
             (case simple_format None cs kwargs of
                Inl e \<Rightarrow> Inl e
              | Inr rest \<Rightarrow> Inr (str_of_ident v @ rest)))
      else simple_format (Some (name @ [c])) cs kwargs)"

text \<open>
  An environment in which nothing fails: every cache file can be opened, read and
  written, handles have the \<^verbatim>\<open>find\<close> of the specification, the cache limit is an hour, both
  endpoints have an address template, and the remote service answers every request with
  status 200 and the same body.
\<close>

definition example_config_get :: "string \<Rightarrow> string \<Rightarrow> exn + string" where
  "example_config_get section opt =
     (if section = ''RESOURCES'' \<and> opt = ''inventory_types'' then Inr ''inventory/types/{type_id}/''
      else if section = ''RESOURCES'' \<and> opt = ''map_regions'' then Inr ''regions/{region_id}/''
      else if section = ''GLOBAL'' \<and> opt = ''useragent'' then Inr ''lockefox''
      else Inl (NoOptionError opt section))"

definition example_body :: pyval where
  "example_body = PDict [(''name'', PStr ''Rifter'')]"

definition example_env :: env where
  "example_env =
     \<lparr>store_fault = (\<lambda>op file. None),
      find_method = Some spec_find,
      sde_cache_limit = Inr 3600,
      config_get = example_config_get,
      str_format = simple_format None,
      http_get = (\<lambda>url agent. Inr \<lparr>status_code = 200, json_body = Some example_body\<rparr>)\<rparr>"

text \<open>
  Two states at time 1000: one with empty cache files, one whose file \<^verbatim>\<open>inventory_types\<close>
  holds an entry for id 587 written ten seconds earlier.
\<close>

definition empty_world :: world where
  "empty_world = \<lparr>cache = (\<lambda>file. []), clock = 1000, requests_log = []\<rparr>"

definition old_entry :: document where
  "old_entry = \<lparr>index_key = IntId 587, cache_datetime = 990, payload = PDict [(''name'', PStr ''old'')]\<rparr>"

definition cached_world :: world where
  "cached_world =
     \<lparr>cache = (\<lambda>file. if file = ''inventory_types'' then [old_entry] else []),
      clock = 1000, requests_log = []\<rparr>"

text \<open>
  Two variations: an environment whose remote service answers every request with status
  404 and no body, and one in which no cache file can be opened.
\<close>

definition failing_env :: env where
  "failing_env =
     example_env\<lparr>http_get := (\<lambda>url agent. Inr \<lparr>status_code = 404, json_body = None\<rparr>)\<rparr>"

definition unreachable_store_env :: env where
  "unreachable_store_env =
     example_env\<lparr>store_fault :=
       (\<lambda>op file. if op = Open then Some (OtherError ''cannot open cache file'') else None)\<rparr>"

text \<open>
  An environment whose remote service answers every request with status 300 and a body
  that parses.
\<close>

definition redirect_env :: env where
  "redirect_env =
     example_env\<lparr>http_get := (\<lambda>url agent. Inr \<lparr>status_code = 300, json_body = Some example_body\<rparr>)\<rparr>"

text \<open>
  An environment with a cache limit of 60 seconds, and a state at time 1000 whose file
  \<^verbatim>\<open>inventory_types\<close> holds an entry for id 587 written 59 seconds earlier.
\<close>

definition boundary_env :: env where
  "boundary_env = example_env\<lparr>sde_cache_limit := Inr 60\<rparr>"

definition boundary_entry :: document where
  "boundary_entry =
     \<lparr>index_key = IntId 587, cache_datetime = 941, payload = PDict [(''name'', PStr ''Rifter'')]\<rparr>"

definition boundary_world :: world where
  "boundary_world =
     \<lparr>cache = (\<lambda>file. if file = ''inventory_types'' then [boundary_entry] else []),
      clock = 1000, requests_log = []\<rparr>"

section \<open>Auxiliary facts\<close>

text \<open>Updating the documents of one key leaves every key where it is.\<close>

lemma keys_update_comp:
  "index_key \<circ> (\<lambda>d. if index_key d = k then d\<lparr>cache_datetime := t, payload := p\<rparr> else d) = index_key"
  by (auto simp: fun_eq_iff)

lemma keys_update:
  "map index_key (map (\<lambda>d. if index_key d = k then d\<lparr>cache_datetime := t, payload := p\<rparr> else d) ds)
     = map index_key ds"
  by (simp add: keys_update_comp)



lemma filter_others_update:
  "filter (\<lambda>d. index_key d \<noteq> k)
     (map (\<lambda>d. if index_key d = k then d\<lparr>cache_datetime := t, payload := p\<rparr> else d) ds)
   = filter (\<lambda>d. index_key d \<noteq> k) ds"
  by (induction ds) auto

lemma found_iff: "filter (matches (Index_key_eq k)) ds \<noteq> [] \<longleftrightarrow> k \<in> index_key ` set ds"
  by (induction ds) auto

lemma write_cache_entry_cases:
  "write_cache_entry env h k p w = (Inr (), w') \<Longrightarrow>
   cache w' (file_of h) =
     (if k \<in> index_key ` set (cache w (file_of h))
      then map (\<lambda>d. if index_key d = k then d\<lparr>cache_datetime := clock w, payload := p\<rparr> else d)
             (cache w (file_of h))
      else cache w (file_of h) @ [\<lparr>index_key = k, cache_datetime = clock w, payload = p\<rparr>])"
  by (auto simp: write_cache_entry_def tinydb_search_def tinydb_update_def tinydb_insert_def found_iff
      split: option.splits if_splits)

lemma write_cache_entry_other_files:
  "write_cache_entry env h k p w = (r, w') \<Longrightarrow> file \<noteq> file_of h \<Longrightarrow> cache w' file = cache w file"
  by (auto simp: write_cache_entry_def tinydb_search_def tinydb_update_def tinydb_insert_def
      split: option.splits if_splits)


lemma write_cache_entry_searchable:
  "write_cache_entry env h k p w = (Inr (), w') \<Longrightarrow> store_fault env Search (file_of h) = None"
  by (auto simp: write_cache_entry_def tinydb_search_def split: option.splits)


lemma write_cache_entry_present:
  assumes "write_cache_entry env h k p w = (Inr (), w')"
  shows "k \<in> index_key ` set (cache w' (file_of h))"
proof (cases "k \<in> index_key ` set (cache w (file_of h))")
  case True
  then have "k \<in> set (map index_key (cache w (file_of h)))" by simp
  then have "k \<in> set (map index_key (cache w' (file_of h)))"
    using write_cache_entry_cases [OF assms] True by (simp only: if_True keys_update)
  then show ?thesis by simp
next
  case False
  with write_cache_entry_cases [OF assms] show ?thesis by simp
qed

text \<open>
  Without \<^verbatim>\<open>cache_buster\<close> the lookup never binds \<^verbatim>\<open>cache_val\<close>, in any environment and
  state; a fetch either fails before the request is sent or logs exactly one request.
\<close>

lemma validate_id_no_bypass:
  "validate_id env endpoint_name type_id False w = (Inl (UnboundLocalError ''cache_val''), w)"
  by (simp add: validate_id_def check_local_cache_def tinydb_find_def cache_query_def
      split: sum.splits option.splits)

lemma fetch_crest_endpoint_log:
  assumes "fetch_crest_endpoint env endpoint_name base kwargs w = (r, w')"
  shows "w' = w \<and> (\<exists>e. r = Inl e)
       \<or> (\<exists>crest_url agent. w' = w\<lparr>requests_log := requests_log w @ [crest_url]\<rparr>
            \<and> config_get env ''GLOBAL'' ''useragent'' = Inr agent
            \<and> r = (case http_get env crest_url agent of
                     Inl e \<Rightarrow> Inl e
                   | Inr req \<Rightarrow>
                       (case raise_for_status req of
                          Some e \<Rightarrow> Inl e
                        | None \<Rightarrow>
                            (case json_body req of
                               None \<Rightarrow> Inl (ValueError ''Expected object or value'')
                             | Some data \<Rightarrow> Inr data))))"
proof (cases "config_get env ''RESOURCES'' endpoint_name")
  case (Inl e)
  with assms show ?thesis by (auto simp: fetch_crest_endpoint_def)
next
  case template: (Inr template)
  show ?thesis
  proof (cases "str_format env (base @ template) kwargs")
    case (Inl e)
    with assms template show ?thesis by (auto simp: fetch_crest_endpoint_def)
  next
    case url: (Inr crest_url)
    show ?thesis
    proof (cases "config_get env ''GLOBAL'' ''useragent''")
      case (Inl e)
      with assms template url show ?thesis by (auto simp: fetch_crest_endpoint_def)
    next
      case (Inr agent)
      with assms template url
      have "w' = w\<lparr>requests_log := requests_log w @ [crest_url]\<rparr>
            \<and> r = (case http_get env crest_url agent of
                     Inl e \<Rightarrow> Inl e
                   | Inr req \<Rightarrow>
                       (case raise_for_status req of
                          Some e \<Rightarrow> Inl e
                        | None \<Rightarrow>
                            (case json_body req of
                               None \<Rightarrow> Inl (ValueError ''Expected object or value'')
                             | Some data \<Rightarrow> Inr data)))"
        by (auto simp: fetch_crest_endpoint_def Let_def split: sum.splits option.splits)
      with Inr show ?thesis by blast
    qed
  qed
qed

text \<open>
  What the request block guarantees by itself: the fetched data is returned whatever the
  cache write does, an unknown endpoint is refused before any request, and with
  \<^verbatim>\<open>cache_buster\<close> no cache file changes.
\<close>

lemma request_info_returns_fetched:
  "endpoint_to_kwarg endpoint_name type_id = Inr kwarg_pair \<Longrightarrow>
   fetch_crest_endpoint env endpoint_name CREST_BASE kwarg_pair w = (Inr type_info, w') \<Longrightarrow>
   fst (request_info env endpoint_name type_id db_handle w) = Inr type_info"
  by (simp add: request_info_def)

lemma validate_id_bypass_unknown_endpoint:
  "endpoint_name \<noteq> ''inventory_types'' \<Longrightarrow> endpoint_name \<noteq> ''map_regions'' \<Longrightarrow>
   validate_id env endpoint_name type_id True w =
     (Inl (IDValidationError 404 (unable_to_validate endpoint_name type_id)
        (UnsupportedCrestEndpoint (''No configuration for '' @ endpoint_name))), w)"
  by (simp add: validate_id_def request_info_def endpoint_to_kwarg_def)

lemma validate_id_bypass_cache:
  "cache (snd (validate_id env endpoint_name type_id True w)) = cache w"
  by (auto simp: validate_id_def request_info_def update_cache_def fetch_crest_endpoint_def Let_def
      split: sum.splits option.splits prod.splits)

text \<open>The definitions unfolded to evaluate the functions in the example environment.\<close>

lemmas example_defs = example_env_def failing_env_def unreachable_store_env_def empty_world_def
  cached_world_def old_entry_def example_body_def example_config_get_def redirect_env_def
  boundary_env_def boundary_entry_def boundary_world_def

lemmas run_defs = validate_id_def request_info_def update_cache_def fetch_crest_endpoint_def
  endpoint_to_kwarg_def check_local_cache_def tinydb_find_def cache_query_def setup_cache_file_def
  raise_for_status_def unable_to_validate_def CREST_BASE_def str_of_int_def str_of_nat.simps Let_def

lemmas store_defs = write_cache_entry_def tinydb_search_def tinydb_update_def tinydb_insert_def

section \<open>Properties\<close>

text \<open>
  C9. Parameter mapping: for every id, \<^verbatim>\<open>inventory_types\<close> yields exactly the dictionary
  \<^verbatim>\<open>{type_id: id}\<close> and \<^verbatim>\<open>map_regions\<close> exactly \<^verbatim>\<open>{region_id: id}\<close>; every other endpoint name
  raises \<^verbatim>\<open>UnsupportedCrestEndpoint\<close>. The result depends on the two arguments only.
\<close>

theorem endpoint_to_kwarg_mapping:
  "endpoint_to_kwarg ''inventory_types'' i = Inr [(''type_id'', i)]
   \<and> endpoint_to_kwarg ''map_regions'' i = Inr [(''region_id'', i)]
   \<and> (n \<noteq> ''inventory_types'' \<and> n \<noteq> ''map_regions'' \<longrightarrow>
        endpoint_to_kwarg n i = Inl (UnsupportedCrestEndpoint (''No configuration for '' @ n)))"
  by (simp add: endpoint_to_kwarg_def)

theorem endpoint_to_kwarg_mapping_witness:
  "endpoint_to_kwarg ''inventory_types'' (IntId 587) = Inr [(''type_id'', IntId 587)]
   \<and> endpoint_to_kwarg ''map_regions'' (IntId 10000002) = Inr [(''region_id'', IntId 10000002)]
   \<and> ''not_a_real_endpoint'' \<noteq> ''inventory_types''
   \<and> ''not_a_real_endpoint'' \<noteq> ''map_regions''
   \<and> endpoint_to_kwarg ''not_a_real_endpoint'' (IntId 123) =
        Inl (UnsupportedCrestEndpoint ''No configuration for not_a_real_endpoint'')"
  using endpoint_to_kwarg_mapping [of "IntId 587" "''not_a_real_endpoint''"]
    endpoint_to_kwarg_mapping [of "IntId 10000002" "''not_a_real_endpoint''"]
    endpoint_to_kwarg_mapping [of "IntId 123" "''not_a_real_endpoint''"]
  by simp



text \<open>
  C10. Frame of an update: when the key is already in the file, a successful
  \<^verbatim>\<open>write_cache_entry\<close> changes, in the documents of that key, the fields
  \<^verbatim>\<open>cache_datetime\<close> and \<^verbatim>\<open>payload\<close> and nothing else: every \<^verbatim>\<open>index_key\<close> stays where it was,
  the documents of other keys are untouched, and a search for the key still finds an
  entry.
\<close>

theorem write_cache_entry_update_frame:
  assumes present: "k \<in> index_key ` set (cache w (file_of h))"
    and written: "write_cache_entry env h k p w = (Inr (), w')"
  shows "cache w' (file_of h) =
           map (\<lambda>d. if index_key d = k then d\<lparr>cache_datetime := clock w, payload := p\<rparr> else d)
             (cache w (file_of h))
       \<and> map index_key (cache w' (file_of h)) = map index_key (cache w (file_of h))
       \<and> filter (\<lambda>d. index_key d \<noteq> k) (cache w' (file_of h))
           = filter (\<lambda>d. index_key d \<noteq> k) (cache w (file_of h))
       \<and> (\<exists>found. tinydb_search env h (Index_key_eq k) w' = Inr found \<and> found \<noteq> [])"
proof -
  from write_cache_entry_cases [OF written] present
  have c: "cache w' (file_of h) =
           map (\<lambda>d. if index_key d = k then d\<lparr>cache_datetime := clock w, payload := p\<rparr> else d)
             (cache w (file_of h))" by simp
  have keys: "map index_key (cache w' (file_of h)) = map index_key (cache w (file_of h))"
    by (simp only: c keys_update)
  have others: "filter (\<lambda>d. index_key d \<noteq> k) (cache w' (file_of h))
           = filter (\<lambda>d. index_key d \<noteq> k) (cache w (file_of h))"
    by (simp only: c filter_others_update)
  from write_cache_entry_present [OF written]
  have "filter (matches (Index_key_eq k)) (cache w' (file_of h)) \<noteq> []"
    by (simp only: found_iff)
  with write_cache_entry_searchable [OF written]
  have "\<exists>found. tinydb_search env h (Index_key_eq k) w' = Inr found \<and> found \<noteq> []"
    by (simp add: tinydb_search_def)
  with c keys others show ?thesis by blast
qed

theorem write_cache_entry_update_frame_witness:
  "IntId 587 \<in> index_key ` set (cache cached_world ''inventory_types'')
   \<and> fst (write_cache_entry example_env (Handle ''inventory_types'') (IntId 587) example_body cached_world)
       = Inr ()
   \<and> cache (snd (write_cache_entry example_env (Handle ''inventory_types'') (IntId 587) example_body
        cached_world)) ''inventory_types''
       = [\<lparr>index_key = IntId 587, cache_datetime = 1000, payload = example_body\<rparr>]"
proof -
  let ?h = "Handle ''inventory_types''"
  let ?run = "write_cache_entry example_env ?h (IntId 587) example_body cached_world"
  have present: "IntId 587 \<in> index_key ` set (cache cached_world (file_of ?h))"
    by (simp add: example_defs)
  have r: "fst ?run = Inr ()"
    by (simp add: store_defs example_defs)
  then have written: "?run = (Inr (), snd ?run)" by (simp add: prod_eq_iff)
  from write_cache_entry_update_frame [OF present written]
  have "cache (snd ?run) (file_of ?h) =
           map (\<lambda>d. if index_key d = IntId 587
                     then d\<lparr>cache_datetime := clock cached_world, payload := example_body\<rparr> else d)
             (cache cached_world (file_of ?h))"
    by blast
  then have "cache (snd ?run) ''inventory_types''
       = [\<lparr>index_key = IntId 587, cache_datetime = 1000, payload = example_body\<rparr>]"
    by (simp add: example_defs)
  with present r show ?thesis by simp
qed

text \<open>
  A status outside 200..299 is not always refused: \<^verbatim>\<open>raise_for_status\<close> raises for 4xx and
  5xx only. When the remote service answers with status 300 and a body that parses,
  \<^verbatim>\<open>validate_id\<close> with \<^verbatim>\<open>cache_buster\<close> returns the body as data.
\<close>

theorem validate_id_status_300_counterexample:
  "\<not> (200 \<le> status_code \<lparr>status_code = 300, json_body = Some example_body\<rparr>
        \<and> status_code \<lparr>status_code = 300, json_body = Some example_body\<rparr> < 300)
   \<and> http_get redirect_env ''https://crest-tq.eveonline.com/inventory/types/999/'' ''lockefox''
       = Inr \<lparr>status_code = 300, json_body = Some example_body\<rparr>
   \<and> requests_log (snd (validate_id redirect_env ''inventory_types'' (IntId 999) True empty_world))
       = [''https://crest-tq.eveonline.com/inventory/types/999/'']
   \<and> fst (validate_id redirect_env ''inventory_types'' (IntId 999) True empty_world)
       = Inr example_body"
  by (simp add: run_defs example_defs)

text \<open>
  C7. Remote failure: when a call of \<^verbatim>\<open>validate_id\<close> with \<^verbatim>\<open>cache_buster\<close> reaches the remote
  service (the endpoint is known, its address is built and the request is sent) and the
  answer has a 4xx or 5xx status, which \<^verbatim>\<open>raise_for_status\<close> rejects, or a body that does
  not parse, the call raises \<^verbatim>\<open>IDValidationError\<close> with status 404, so the caller receives
  no payload; the request is logged and the cache files are as they were before the call.
\<close>

theorem validate_id_remote_failure:
  assumes kwargs: "endpoint_to_kwarg endpoint_name type_id = Inr kwarg_pair"
    and template: "config_get env ''RESOURCES'' endpoint_name = Inr template"
    and address: "str_format env (CREST_BASE @ template) kwarg_pair = Inr url"
    and agent: "config_get env ''GLOBAL'' ''useragent'' = Inr agent"
    and answer: "http_get env url agent = Inr req"
    and failure: "raise_for_status req \<noteq> None \<or> json_body req = None"
  shows "(\<exists>cause. validate_id env endpoint_name type_id True w =
            (Inl (IDValidationError 404 (unable_to_validate endpoint_name type_id) cause),
             w\<lparr>requests_log := requests_log w @ [url]\<rparr>))
         \<and> cache (snd (validate_id env endpoint_name type_id True w)) = cache w"
proof -
  let ?w' = "w\<lparr>requests_log := requests_log w @ [url]\<rparr>"
  from failure have "\<exists>e. (case raise_for_status req of
                 Some e \<Rightarrow> (Inl e, ?w')
               | None \<Rightarrow>
                   (case json_body req of
                      None \<Rightarrow> (Inl (ValueError ''Expected object or value''), ?w')
                    | Some data \<Rightarrow> (Inr data, ?w'))) = (Inl e, ?w')"
    by (auto split: option.splits)
  then obtain e where
    "fetch_crest_endpoint env endpoint_name CREST_BASE kwarg_pair w = (Inl e, ?w')"
    using template address agent answer
    by (auto simp: fetch_crest_endpoint_def Let_def)
  with kwargs have "validate_id env endpoint_name type_id True w =
      (Inl (IDValidationError 404 (unable_to_validate endpoint_name type_id) e), ?w')"
    by (simp add: validate_id_def request_info_def)
  then show ?thesis by simp
qed

theorem validate_id_remote_failure_witness:
  "endpoint_to_kwarg ''inventory_types'' (IntId 999) = Inr [(''type_id'', IntId 999)]
   \<and> http_get failing_env ''https://crest-tq.eveonline.com/inventory/types/999/'' ''lockefox''
       = Inr \<lparr>status_code = 404, json_body = None\<rparr>
   \<and> raise_for_status \<lparr>status_code = 404, json_body = None\<rparr> = Some (HTTPError 404)
   \<and> fst (validate_id failing_env ''inventory_types'' (IntId 999) True empty_world)
       = Inl (IDValidationError 404 ''Unable to validate inventory_types:999'' (HTTPError 404))
   \<and> requests_log (snd (validate_id failing_env ''inventory_types'' (IntId 999) True empty_world))
       = [''https://crest-tq.eveonline.com/inventory/types/999/'']
   \<and> cache (snd (validate_id failing_env ''inventory_types'' (IntId 999) True empty_world))
       = cache empty_world"
proof -
  let ?run = "validate_id failing_env ''inventory_types'' (IntId 999) True empty_world"
  let ?req = "\<lparr>status_code = 404, json_body = None\<rparr>"
  let ?url = "''https://crest-tq.eveonline.com/inventory/types/999/''"
  have kwargs: "endpoint_to_kwarg ''inventory_types'' (IntId 999) = Inr [(''type_id'', IntId 999)]"
    by (simp add: endpoint_to_kwarg_def)
  have template: "config_get failing_env ''RESOURCES'' ''inventory_types''
      = Inr ''inventory/types/{type_id}/''"
    by (simp add: example_defs)
  have address: "str_format failing_env (CREST_BASE @ ''inventory/types/{type_id}/'')
      [(''type_id'', IntId 999)] = Inr ?url"
    by (simp add: example_defs CREST_BASE_def str_of_int_def str_of_nat.simps)
  have agent: "config_get failing_env ''GLOBAL'' ''useragent'' = Inr ''lockefox''"
    by (simp add: example_defs)
  have answer: "http_get failing_env ?url ''lockefox'' = Inr ?req"
    by (simp add: example_defs)
  have rejected: "raise_for_status ?req = Some (HTTPError 404)"
    by (simp add: raise_for_status_def)
  then have failure: "raise_for_status ?req \<noteq> None \<or> json_body ?req = None"
    by simp
  have result: "fst ?run
     = Inl (IDValidationError 404 ''Unable to validate inventory_types:999'' (HTTPError 404))"
    by (simp add: run_defs example_defs)
  have sent: "requests_log (snd ?run) = [?url]"
    by (simp add: run_defs example_defs)
  from validate_id_remote_failure [OF kwargs template address agent answer failure, of empty_world]
  have "cache (snd ?run) = cache empty_world" by simp
  with kwargs answer rejected result sent show ?thesis by simp
qed

text \<open>
  C2. The lookup is to return an entry exactly when the entry is fresh and has the
  queried key, and "not found" otherwise, without raising. In a state whose cache file
  holds an entry for id 587 that satisfies both conditions (the \<^verbatim>\<open>find\<close> of the
  specification returns it for their conjunction), the argument the code builds raises
  \<^verbatim>\<open>TypeError\<close>, the lookup block ends with \<^verbatim>\<open>cache_val\<close> unbound, and \<^verbatim>\<open>validate_id\<close> raises
  \<^verbatim>\<open>UnboundLocalError\<close>.
\<close>

theorem check_local_cache_example:
  "matches (intended_query (clock cached_world) 3600 (IntId 587)) old_entry
   \<and> spec_find (intended_query (clock cached_world) 3600 (IntId 587))
       (cache cached_world ''inventory_types'') = Inr (py_of_document old_entry)
   \<and> cache_query (cache_time (clock cached_world) 3600) (IntId 587)
       = Inl (TypeError ''unsupported operand type(s) for &'')
   \<and> check_local_cache example_env ''inventory_types'' (IntId 587) cached_world
       = (Some (Handle ''inventory_types''), None)
   \<and> fst (validate_id example_env ''inventory_types'' (IntId 587) False cached_world)
       = Inl (UnboundLocalError ''cache_val'')"
  by (simp add: run_defs example_defs intended_query_def freshness_condition_def key_condition_def
      cache_time_def spec_find_def)

text \<open>
  C3. An entry whose age is below the cache limit is to be treated as fresh, so an entry
  of age \<^verbatim>\<open>limit - 1\<close> is served from the cache. In the state whose cache file holds an
  entry for id 587 of age 59, with a limit of 60, the lookup block ends with \<^verbatim>\<open>cache_val\<close>
  unbound and \<^verbatim>\<open>validate_id\<close> raises \<^verbatim>\<open>UnboundLocalError\<close>: the entry is not treated as fresh.
\<close>

theorem validate_id_fresh_entry_example:
  "sde_cache_limit boundary_env = Inr 60
   \<and> cache boundary_world ''inventory_types'' = [boundary_entry]
   \<and> index_key boundary_entry = IntId 587
   \<and> clock boundary_world - cache_datetime boundary_entry = of_int 60 - 1
   \<and> check_local_cache boundary_env ''inventory_types'' (IntId 587) boundary_world
       = (Some (Handle ''inventory_types''), None)
   \<and> validate_id boundary_env ''inventory_types'' (IntId 587) False boundary_world
       = (Inl (UnboundLocalError ''cache_val''), boundary_world)"
  by (simp add: validate_id_no_bypass check_local_cache_def tinydb_find_def cache_query_def
      setup_cache_file_def example_defs)

text \<open>
  C5. A failure of the cache store while reading is to count as a cache miss, so that
  \<^verbatim>\<open>validate_id\<close> goes on to the remote fetch. In the environment where the cache file cannot
  be opened, the handler swallows the exception of \<^verbatim>\<open>setup_cache_file\<close>, both local
  variables stay unbound, and \<^verbatim>\<open>validate_id\<close> raises \<^verbatim>\<open>UnboundLocalError\<close> instead of fetching:
  no request is sent.
\<close>

theorem validate_id_unreachable_store_example:
  "setup_cache_file unreachable_store_env ''inventory_types''
     = Inl (OtherError ''cannot open cache file'')
   \<and> check_local_cache unreachable_store_env ''inventory_types'' (IntId 587) empty_world
     = (None, None)
   \<and> validate_id unreachable_store_env ''inventory_types'' (IntId 587) False empty_world
     = (Inl (UnboundLocalError ''cache_val''), empty_world)"
  by (simp add: validate_id_no_bypass check_local_cache_def setup_cache_file_def example_defs)

text \<open>
  C6. An unknown endpoint is to be refused with \<^verbatim>\<open>IDValidationError\<close> caused by
  \<^verbatim>\<open>UnsupportedCrestEndpoint\<close>. The call \<^verbatim>\<open>validate_id('not_a_real_endpoint', 123)\<close> raises
  \<^verbatim>\<open>UnboundLocalError\<close> instead, both when the cache store works and when it cannot be
  opened; no request is sent and no cache file changes.
\<close>

theorem validate_id_unknown_endpoint_example:
  "validate_id example_env ''not_a_real_endpoint'' (IntId 123) False empty_world
     = (Inl (UnboundLocalError ''cache_val''), empty_world)
   \<and> validate_id unreachable_store_env ''not_a_real_endpoint'' (IntId 123) False empty_world
     = (Inl (UnboundLocalError ''cache_val''), empty_world)"
  by (simp add: validate_id_no_bypass)

text \<open>
  C8. With \<^verbatim>\<open>cache_buster\<close> the fetched result is to overwrite the cache entry. In the state
  whose cache file holds a fresh entry for id 587, \<^verbatim>\<open>validate_id\<close> with \<^verbatim>\<open>cache_buster\<close> sends
  the request and returns the fetched body, and the cache file still holds the old entry:
  \<^verbatim>\<open>db_handle\<close> was never bound, so the write is not made.
\<close>

theorem validate_id_bypass_example:
  "matches (intended_query (clock cached_world) 3600 (IntId 587)) old_entry
   \<and> fst (validate_id example_env ''inventory_types'' (IntId 587) True cached_world)
       = Inr example_body
   \<and> requests_log (snd (validate_id example_env ''inventory_types'' (IntId 587) True cached_world))
       = [''https://crest-tq.eveonline.com/inventory/types/587/'']
   \<and> cache (snd (validate_id example_env ''inventory_types'' (IntId 587) True cached_world))
       ''inventory_types'' = [old_entry]"
  by (simp add: run_defs example_defs intended_query_def freshness_condition_def key_condition_def
      cache_time_def)

end
